theory Spec2Isabelle
  imports Main "HOL-Library.Word"
begin

section \<open>IBM IAM signing and credential retrieval\<close>

text \<open>
  The source holds two Go packages: \<^verbatim>\<open>ibm\<close> (the request signer) and
  \<^verbatim>\<open>ibmcreds\<close> (the token provider). Go pointers are taken to be non-nil and the
  header map of a request to be allocated, as the SDK builds them; a mutated object is
  passed in and returned updated. A Go result pair \<^verbatim>\<open>(Value, error)\<close> is a pair whose
  second component is \<open>None\<close> for \<^verbatim>\<open>nil\<close>.
\<close>

subsection \<open>Errors\<close>

text \<open>
  \<open>TransportError\<close> stands for an error value returned by \<^verbatim>\<open>http.PostForm\<close>,
  \<open>DecodeError\<close> for one returned by \<^verbatim>\<open>json.Decoder.Decode\<close>, \<open>ProviderError\<close> for
  one of any other credentials provider. \<open>Errorf f n\<close> is \<^verbatim>\<open>fmt.Errorf(f, n)\<close> and
  \<open>awserr_New c m e\<close> is \<^verbatim>\<open>awserr.New(c, m, e)\<close>: an error with code \<open>c\<close>, message
  \<open>m\<close> and original error \<open>e\<close>.
\<close>

datatype error =
    TransportError string
  | DecodeError string
  | ProviderError string
  | Errorf string int
  | awserr_New string string error

fun Code :: "error \<Rightarrow> string option" where
  "Code (awserr_New c m e) = Some c"
| "Code (TransportError s) = None"
| "Code (DecodeError s) = None"
| "Code (ProviderError s) = None"
| "Code (Errorf f n) = None"

fun OrigErr :: "error \<Rightarrow> error option" where
  "OrigErr (awserr_New c m e) = Some e"
| "OrigErr (TransportError s) = None"
| "OrigErr (DecodeError s) = None"
| "OrigErr (ProviderError s) = None"
| "OrigErr (Errorf f n) = None"

subsection \<open>Credential values\<close>

text \<open>
  \<^verbatim>\<open>credentials.Value\<close>, with the fields the source reads or writes. A composite literal
  leaves the fields it does not name at the empty string.
\<close>

record Value =
  ServiceInstanceID :: string
  SessionToken :: string
  ProviderName :: string

subsection \<open>HTTP headers\<close>

text \<open>
  \<^verbatim>\<open>http.Header\<close> is a \<^verbatim>\<open>map[string][]string\<close> whose keys are in the canonical form of
  \<^verbatim>\<open>textproto.CanonicalMIMEHeaderKey\<close>: the first letter and every letter after a
  hyphen in upper case, the others in lower case; a key with a byte that is not a header
  token byte is left as it is.
\<close>

type_synonym Header = "string \<rightharpoonup> string list"

definition validHeaderFieldByte :: "char \<Rightarrow> bool" where
  "validHeaderFieldByte c =
     (let n = (of_char c :: nat) in
        (48 \<le> n \<and> n \<le> 57) \<or> (65 \<le> n \<and> n \<le> 90) \<or> (97 \<le> n \<and> n \<le> 122) \<or>
        n \<in> set [33, 35, 36, 37, 38, 39, 42, 43, 45, 46, 94, 95, 96, 124, 126])"

definition canonicalByte :: "bool \<Rightarrow> char \<Rightarrow> char" where
  "canonicalByte upper c =
     (let n = (of_char c :: nat) in
        if upper \<and> 97 \<le> n \<and> n \<le> 122 then char_of (n - 32)
        else if \<not> upper \<and> 65 \<le> n \<and> n \<le> 90 then char_of (n + 32)
        else c)"

fun canonicalBytes :: "bool \<Rightarrow> string \<Rightarrow> string" where
  "canonicalBytes upper [] = []"
| "canonicalBytes upper (c # cs) =
     (let c' = canonicalByte upper c in c' # canonicalBytes (c' = CHR ''-'') cs)"

definition CanonicalMIMEHeaderKey :: "string \<Rightarrow> string" where
  "CanonicalMIMEHeaderKey s =
     (if list_all validHeaderFieldByte s then canonicalBytes True s else s)"

definition Header_Values :: "Header \<Rightarrow> string \<Rightarrow> string list" where
  "Header_Values h key =
     (case h (CanonicalMIMEHeaderKey key) of None \<Rightarrow> [] | Some vs \<Rightarrow> vs)"

definition Header_Add :: "Header \<Rightarrow> string \<Rightarrow> string \<Rightarrow> Header" where
  "Header_Add h key v =
     h(CanonicalMIMEHeaderKey key \<mapsto> Header_Values h key @ [v])"

subsection \<open>The request signer (package ibm)\<close>

record http_Request =
  Header :: Header

record Operation =
  Name :: string

record 'c Signer =
  Credentials :: 'c

text \<open>
  \<^verbatim>\<open>credentials.Credentials\<close> is the SDK's caching wrapper around a provider. Its state
  is a value of a type \<open>'c\<close>, and its method \<^verbatim>\<open>Get\<close> is a parameter \<open>Get\<close> of the
  signer's functions: it returns the credential value and the error, and the wrapper's
  new state.
\<close>

type_synonym 'c Getter = "'c \<Rightarrow> (Value \<times> error option) \<times> 'c"

definition NewSigner :: "'c \<Rightarrow> 'c Signer" where
  "NewSigner credentials = \<lparr>Credentials = credentials\<rparr>"

text \<open>
  \<^verbatim>\<open>Sign\<close> returns its error, the request as it leaves it, and the state of the
  credentials object.
\<close>

definition Sign ::
  "'c Getter \<Rightarrow> 'c Signer \<Rightarrow> http_Request \<Rightarrow> Operation \<Rightarrow> error option \<times> http_Request \<times> 'c"
where
  "Sign Get ibm r op =
     (case Get (Credentials ibm) of
        ((creds, Some err), c') \<Rightarrow> (Some err, r, c')
      | ((creds, None), c') \<Rightarrow>
          (let r1 = r\<lparr>Header :=
                     Header_Add (Header r) ''Authorization'' (''Bearer '' @ SessionToken creds)\<rparr>;
               r2 = (if Name op = ''ListBuckets'' \<or> Name op = ''CreateBucket''
                     then r1\<lparr>Header :=
                            Header_Add (Header r1) ''ibm-service-instance-id''
                              (ServiceInstanceID creds)\<rparr>
                     else r1)
           in (None, r2, c')))"

record 'c Config =
  Config_Credentials :: 'c

record 'c Request =
  Config :: "'c Config"
  HTTPRequest :: http_Request
  Operation :: Operation
  Error :: "error option"

definition SignRequest :: "'c Getter \<Rightarrow> 'c Request \<Rightarrow> 'c Request" where
  "SignRequest Get req =
     (let ibm = NewSigner (Config_Credentials (Config req)) in
      case Sign Get ibm (HTTPRequest req) (Operation req) of
        (Some err, r', c') \<Rightarrow>
          req\<lparr>Config := (Config req)\<lparr>Config_Credentials := c'\<rparr>, HTTPRequest := r',
              Error := Some err\<rparr>
      | (None, r', c') \<Rightarrow>
          req\<lparr>Config := (Config req)\<lparr>Config_Credentials := c'\<rparr>, HTTPRequest := r'\<rparr>)"

subsection \<open>Time and the expiry of credentials\<close>

text \<open>
  A \<^verbatim>\<open>time.Time\<close> is the instant it denotes, in nanoseconds since the Unix epoch; a
  \<^verbatim>\<open>time.Duration\<close> is an \<^verbatim>\<open>int64\<close> of nanoseconds.
\<close>

type_synonym Time = int
type_synonym Duration = "64 word"

text \<open>
  \<^verbatim>\<open>time.Unix(sec, nsec)\<close> of the Go library: it brings \<open>nsec\<close> into the range from 0
  to 999999999, carrying into \<open>sec\<close>, and keeps the seconds since January 1 of year 1,
  \<open>sec + 62135596800\<close>, in an \<^verbatim>\<open>int64\<close>. The sum wraps around: from
  \<open>sec = 2 ^ 63 - 62135596800\<close> on, the time is in the far past. The division of Go
  truncates towards zero.
\<close>

definition time_Unix :: "64 word \<Rightarrow> 64 word \<Rightarrow> Time" where
  "time_Unix sec nsec =
     (let (sec', nsec') =
        (if sint nsec < 0 \<or> 1000000000 \<le> sint nsec
         then (let n = word_of_int (sgn (sint nsec) * (\<bar>sint nsec\<bar> div 1000000000));
                   sec1 = sec + n;
                   nsec1 = nsec - n * 1000000000
               in if sint nsec1 < 0 then (sec1 - 1, nsec1 + 1000000000) else (sec1, nsec1))
         else (sec, nsec))
      in (sint (sec' + 62135596800) - 62135596800) * 1000000000 + sint nsec')"

text \<open>
  Modelled from the spec: the struct \<^verbatim>\<open>credentials.Expiry\<close> is missing from the source;
  it holds the cached expiration.
\<close>

record Expiry =
  expiration :: Time

text \<open>
  Modelled from the spec: \<^verbatim>\<open>Expiry.SetExpiration\<close> (of \<^verbatim>\<open>credentials.Expiry\<close>) is
  missing from the source. The spec has a credential valid only while
  \<open>now < expiration - expiry_window\<close>: the cached expiration is the expiration minus the
  expiry window, the time from which the credentials count as expired.
\<close>

definition SetExpiration :: "Expiry \<Rightarrow> Time \<Rightarrow> Duration \<Rightarrow> Expiry" where
  "SetExpiration e t window = e\<lparr>expiration := t - sint window\<rparr>"

text \<open>
  Modelled from the spec: \<^verbatim>\<open>Expiry.IsExpired\<close> is missing from the source. By the
  spec it is a function of the cached expiration, the expiry window and the current time,
  and true once \<open>now \<ge> expiration - expiry_window\<close>. The current time is the argument
  \<open>now\<close>.
\<close>

definition Expiry_IsExpired :: "Expiry \<Rightarrow> Time \<Rightarrow> bool" where
  "Expiry_IsExpired e now = (expiration e \<le> now)"

subsection \<open>The token endpoint\<close>

text \<open>
  The network is the endpoint's behaviour, a function from the POST requests issued so
  far (the last one being the current one) to the outcome of \<^verbatim>\<open>http.PostForm\<close>, and
  the list of the POST requests issued. \<^verbatim>\<open>url.Values\<close> is a
  \<^verbatim>\<open>map[string][]string\<close>.
\<close>

type_synonym url_Values = "string \<rightharpoonup> string list"

record http_Response =
  StatusCode :: int
  Body :: string

record network =
  respond :: "(string \<times> url_Values) list \<Rightarrow> error + http_Response"
  posted :: "(string \<times> url_Values) list"

definition http_PostForm ::
  "string \<Rightarrow> url_Values \<Rightarrow> network \<Rightarrow> (error + http_Response) \<times> network"
where
  "http_PostForm url data net =
     (let log = posted net @ [(url, data)]
      in (respond net log, net\<lparr>posted := log\<rparr>))"

subsection \<open>The token provider (package ibmcreds)\<close>

text \<open>
  The constant \<^verbatim>\<open>ProviderName\<close> of the package; the field of the same name of
  \<open>Value\<close> keeps the plain name.
\<close>

definition ibmcreds_ProviderName :: string where
  "ibmcreds_ProviderName = ''IBMIAMProvider''"

definition defaultIAMEndPoint :: string where
  "defaultIAMEndPoint = ''https://iam.bluemix.net/oidc/token''"

record Provider =
  Expiry :: Expiry
  apiKey :: string
  serviceInstanceID :: string
  IAMEndpoint :: string
  ExpiryWindow :: Duration

record getCredentialsOutput =
  Expiration :: "64 word"
  AccessToken :: string

text \<open>
  The zero \<^verbatim>\<open>time.Time\<close> is January 1 of year 1, 62135596800 seconds before the
  Unix epoch.
\<close>

definition NewProviderClient :: "string \<Rightarrow> string \<Rightarrow> string \<Rightarrow> Provider" where
  "NewProviderClient apiKey' serviceInstanceID' iamEndpoint =
     \<lparr>Expiry = \<lparr>expiration = - 62135596800 * 1000000000\<rparr>,
      apiKey = apiKey',
      serviceInstanceID = serviceInstanceID',
      IAMEndpoint = iamEndpoint,
      ExpiryWindow = 0\<rparr>"

definition IsExpired :: "Provider \<Rightarrow> Time \<Rightarrow> bool" where
  "IsExpired p now = Expiry_IsExpired (Expiry p) now"

text \<open>
  \<^verbatim>\<open>json.NewDecoder(resp.Body).Decode(out)\<close> is a parameter \<open>Decode\<close>: from the body
  to the decoded output, or the decoder's error.
\<close>

type_synonym Decoder = "string \<Rightarrow> error + getCredentialsOutput"

definition IAMEndpointURL :: "Provider \<Rightarrow> string" where
  "IAMEndpointURL p =
     (if IAMEndpoint p \<noteq> '''' then IAMEndpoint p @ ''/oidc/token'' else defaultIAMEndPoint)"

text \<open>The \<^verbatim>\<open>url.Values\<close> literal of \<^verbatim>\<open>getCredentials\<close>.\<close>

abbreviation apikeyForm :: "string \<Rightarrow> url_Values" where
  "apikeyForm key \<equiv>
     [''grant_type'' \<mapsto> [''urn:ibm:params:oauth:grant-type:apikey''],
      ''response_type'' \<mapsto> [''cloud_iam''],
      ''apikey'' \<mapsto> [key]]"

definition getCredentials ::
  "Decoder \<Rightarrow> Provider \<Rightarrow> network \<Rightarrow> (error + getCredentialsOutput) \<times> network"
where
  "getCredentials Decode p net =
     (case http_PostForm (IAMEndpointURL p) (apikeyForm (apiKey p)) net of
        (Inl err, net') \<Rightarrow> (Inl err, net')
      | (Inr resp, net') \<Rightarrow>
          if StatusCode resp \<noteq> 200
          then (Inl (Errorf ''server returned status %d instead of 200'' (StatusCode resp)), net')
          else (case Decode (Body resp) of
                  Inl err \<Rightarrow> (Inl err, net')
                | Inr out \<Rightarrow> (Inr out, net')))"

text \<open>
  \<^verbatim>\<open>Retrieve\<close> returns the credential value, the error, the provider as it leaves it
  and the network.
\<close>

definition Retrieve ::
  "Decoder \<Rightarrow> Provider \<Rightarrow> network \<Rightarrow> Value \<times> error option \<times> Provider \<times> network"
where
  "Retrieve Decode p net =
     (case getCredentials Decode p net of
        (Inl err, net') \<Rightarrow>
          (\<lparr>ServiceInstanceID = '''', SessionToken = '''', ProviderName = ibmcreds_ProviderName\<rparr>,
           Some (awserr_New ''CredentialsEndpointError'' ''failed to load credentials'' err),
           p, net')
      | (Inr resp, net') \<Rightarrow>
          (\<lparr>ServiceInstanceID = serviceInstanceID p,
            SessionToken = AccessToken resp,
            ProviderName = ibmcreds_ProviderName\<rparr>,
           None,
           p\<lparr>Expiry := SetExpiration (Expiry p) (time_Unix (Expiration resp) 0) (ExpiryWindow p)\<rparr>,
           net'))"

subsection \<open>Test doubles\<close>

text \<open>
  The collaborators the examples run against: a credentials object that always returns
  the same value, one that always fails, a token endpoint that answers every POST with a
  given status and body, and a decoder that accepts one body only.
\<close>

definition staticCredentials :: "Value \<Rightarrow> unit Getter" where
  "staticCredentials v c = ((v, None), c)"

definition failingCredentials :: "error \<Rightarrow> unit Getter" where
  "failingCredentials e c =
     ((\<lparr>ServiceInstanceID = '''', SessionToken = '''', ProviderName = ''''\<rparr>, Some e), c)"

definition mock_endpoint :: "int \<Rightarrow> string \<Rightarrow> network" where
  "mock_endpoint status body =
     \<lparr>respond = (\<lambda>log. Inr \<lparr>StatusCode = status, Body = body\<rparr>), posted = []\<rparr>"

definition unreachable_endpoint :: network where
  "unreachable_endpoint =
     \<lparr>respond = (\<lambda>log. Inl (TransportError ''connection refused'')), posted = []\<rparr>"

text \<open>The body of a token response, as JSON.\<close>

definition token_response_body :: string where
  \<open>token_response_body = ''{"access_token":"tok","expiration":100}''\<close>

definition mock_Decode :: Decoder where
  "mock_Decode body =
     (if body = token_response_body
      then Inr \<lparr>Expiration = 100, AccessToken = ''tok''\<rparr>
      else Inl (DecodeError ''invalid character''))"

section \<open>Properties of the request signer\<close>

lemma canon_Authorization:
  "CanonicalMIMEHeaderKey ''Authorization'' = ''Authorization''"
  by code_simp

lemma canon_service_instance_id:
  "CanonicalMIMEHeaderKey ''ibm-service-instance-id'' = ''Ibm-Service-Instance-Id''"
  by code_simp

lemma Header_Values_Add_same:
  "Header_Values (Header_Add h key v) key = Header_Values h key @ [v]"
  by (simp add: Header_Values_def Header_Add_def)

lemma Header_Values_Add_other:
  "CanonicalMIMEHeaderKey key \<noteq> CanonicalMIMEHeaderKey key' \<Longrightarrow>
   Header_Values (Header_Add h key v) key' = Header_Values h key'"
  by (simp add: Header_Values_def Header_Add_def)

lemma Header_Values_empty: "Header_Values Map.empty key = []"
  by (simp add: Header_Values_def)

lemma Sign_ok:
  assumes "Get (Credentials ibm) = ((creds, None), c')"
  shows "Sign Get ibm r op =
    (None,
     (if Name op = ''ListBuckets'' \<or> Name op = ''CreateBucket''
      then r\<lparr>Header :=
               Header_Add
                 (Header_Add (Header r) ''Authorization'' (''Bearer '' @ SessionToken creds))
                 ''ibm-service-instance-id'' (ServiceInstanceID creds)\<rparr>
      else r\<lparr>Header :=
               Header_Add (Header r) ''Authorization'' (''Bearer '' @ SessionToken creds)\<rparr>),
     c')"
  using assms by (simp add: Sign_def Let_def)

lemma Sign_error:
  assumes "Get (Credentials ibm) = ((creds, Some e), c')"
  shows "Sign Get ibm r op = (Some e, r, c')"
  using assms by (simp add: Sign_def)

lemma Sign_succeeds_iff:
  "fst (Sign Get ibm r op) = None \<longleftrightarrow> snd (fst (Get (Credentials ibm))) = None"
  by (auto simp add: Sign_def Let_def split: prod.splits option.splits)

lemma staticCredentials_Get:
  "staticCredentials v (Credentials (NewSigner ())) = ((v, None), ())"
  by (simp add: staticCredentials_def)

lemma failingCredentials_Get:
  "failingCredentials e (Credentials (NewSigner ())) =
     ((\<lparr>ServiceInstanceID = '''', SessionToken = '''', ProviderName = ''''\<rparr>, Some e), ())"
  by (simp add: failingCredentials_def)

text \<open>
  C3. Whenever \<^verbatim>\<open>Sign\<close> succeeds, the values of the header
  \<^verbatim>\<open>ibm-service-instance-id\<close> of the request are those it had before, followed by
  the service-instance id of the credentials when the operation is ListBuckets or
  CreateBucket, and by nothing for any other operation.
\<close>

theorem Sign_service_instance_id:
  assumes "Sign Get ibm r op = (None, r', c')"
  shows "Header_Values (Header r') ''ibm-service-instance-id'' =
           Header_Values (Header r) ''ibm-service-instance-id'' @
           (if Name op = ''ListBuckets'' \<or> Name op = ''CreateBucket''
            then [ServiceInstanceID (fst (fst (Get (Credentials ibm))))] else [])"
proof -
  obtain creds err c where g: "Get (Credentials ibm) = ((creds, err), c)"
    by (metis surj_pair)
  have "err = None"
    using assms g Sign_succeeds_iff [of Get ibm r op] by simp
  with g have s: "Get (Credentials ibm) = ((creds, None), c)"
    by simp
  have ne: "CanonicalMIMEHeaderKey ''Authorization'' \<noteq>
            CanonicalMIMEHeaderKey ''ibm-service-instance-id''"
    by (simp add: canon_Authorization canon_service_instance_id)
  show ?thesis
    using assms Sign_ok [of Get ibm creds c r op] s
    by (auto simp add: Header_Values_Add_same Header_Values_Add_other [OF ne])
qed

theorem Sign_service_instance_id_witness:
  "Sign (staticCredentials \<lparr>ServiceInstanceID = ''sid'', SessionToken = ''tok'',
                            ProviderName = ''IBMIAMProvider''\<rparr>)
     (NewSigner ()) \<lparr>Header = Map.empty\<rparr> \<lparr>Name = ''CreateBucket''\<rparr> =
     (None,
      \<lparr>Header = [''Authorization'' \<mapsto> [''Bearer tok''],
                 ''Ibm-Service-Instance-Id'' \<mapsto> [''sid'']]\<rparr>,
      ()) \<and>
   Header_Values [''Authorization'' \<mapsto> [''Bearer tok''],
                  ''Ibm-Service-Instance-Id'' \<mapsto> [''sid'']]
     ''ibm-service-instance-id'' = [''sid''] \<and>
   Sign (staticCredentials \<lparr>ServiceInstanceID = ''sid'', SessionToken = ''tok'',
                            ProviderName = ''IBMIAMProvider''\<rparr>)
     (NewSigner ()) \<lparr>Header = Map.empty\<rparr> \<lparr>Name = ''GetObject''\<rparr> =
     (None, \<lparr>Header = [''Authorization'' \<mapsto> [''Bearer tok'']]\<rparr>, ()) \<and>
   Header_Values [''Authorization'' \<mapsto> [''Bearer tok'']] ''ibm-service-instance-id'' = []"
proof -
  let ?v = "\<lparr>ServiceInstanceID = ''sid'', SessionToken = ''tok'',
             ProviderName = ''IBMIAMProvider''\<rparr>"
  have h: "Sign (staticCredentials ?v) (NewSigner ()) \<lparr>Header = Map.empty\<rparr>
             \<lparr>Name = ''CreateBucket''\<rparr> =
           (None,
            \<lparr>Header = [''Authorization'' \<mapsto> [''Bearer tok''],
                       ''Ibm-Service-Instance-Id'' \<mapsto> [''sid'']]\<rparr>,
            ())"
    by (simp add: Sign_def staticCredentials_def Header_Add_def Header_Values_def
        canon_Authorization canon_service_instance_id)
  have h': "Sign (staticCredentials ?v) (NewSigner ()) \<lparr>Header = Map.empty\<rparr>
              \<lparr>Name = ''GetObject''\<rparr> =
            (None, \<lparr>Header = [''Authorization'' \<mapsto> [''Bearer tok'']]\<rparr>, ())"
    by (simp add: Sign_def staticCredentials_def Header_Add_def Header_Values_def
        canon_Authorization)
  show ?thesis
    using h h' Sign_service_instance_id [OF h] Sign_service_instance_id [OF h']
    by (simp add: Header_Values_empty staticCredentials_def)
qed

text \<open>
  C4. Whenever the credentials are retrieved without error, \<^verbatim>\<open>Sign\<close> returns no error
  and the request it leaves has, after the values the header \<^verbatim>\<open>Authorization\<close> had
  before, the value \<^verbatim>\<open>Bearer\<close>, a space and the session token.
\<close>

theorem Sign_adds_Authorization:
  assumes "Get (Credentials ibm) = ((creds, None), c')"
  shows "\<exists>r'. Sign Get ibm r op = (None, r', c') \<and>
           Header_Values (Header r') ''Authorization'' =
             Header_Values (Header r) ''Authorization'' @ [''Bearer '' @ SessionToken creds]"
proof -
  have ne: "CanonicalMIMEHeaderKey ''ibm-service-instance-id'' \<noteq>
            CanonicalMIMEHeaderKey ''Authorization''"
    by (simp add: canon_Authorization canon_service_instance_id)
  show ?thesis
    using Sign_ok [of Get ibm creds c' r op] assms
    by (simp add: Header_Values_Add_same Header_Values_Add_other [OF ne])
qed

theorem Sign_adds_Authorization_witness:
  "staticCredentials \<lparr>ServiceInstanceID = ''sid'', SessionToken = ''tok'',
                       ProviderName = ''IBMIAMProvider''\<rparr> (Credentials (NewSigner ())) =
     ((\<lparr>ServiceInstanceID = ''sid'', SessionToken = ''tok'',
        ProviderName = ''IBMIAMProvider''\<rparr>, None), ()) \<and>
   (\<exists>r'. Sign (staticCredentials \<lparr>ServiceInstanceID = ''sid'', SessionToken = ''tok'',
                                   ProviderName = ''IBMIAMProvider''\<rparr>)
            (NewSigner ()) \<lparr>Header = Map.empty\<rparr> \<lparr>Name = ''GetObject''\<rparr> = (None, r', ()) \<and>
         Header_Values (Header r') ''Authorization'' = [''Bearer tok''])"
proof -
  let ?v = "\<lparr>ServiceInstanceID = ''sid'', SessionToken = ''tok'',
             ProviderName = ''IBMIAMProvider''\<rparr>"
  have h: "staticCredentials ?v (Credentials (NewSigner ())) = ((?v, None), ())"
    by (rule staticCredentials_Get)
  show ?thesis
    using h Sign_adds_Authorization [of "staticCredentials ?v" "NewSigner ()" ?v "()"
        "\<lparr>Header = Map.empty\<rparr>" "\<lparr>Name = ''GetObject''\<rparr>", OF h]
    by (simp add: Header_Values_empty)
qed

text \<open>
  C7. Whenever the retrieval of the credentials fails with an error, \<^verbatim>\<open>Sign\<close> returns
  that error, and \<^verbatim>\<open>SignRequest\<close> on a request configured with the same credentials
  stores that error in the field \<^verbatim>\<open>Error\<close> of the request and leaves its HTTP request
  as it was.
\<close>

theorem Sign_propagates_error:
  assumes "Get (Credentials ibm) = ((v, Some e), c')"
    and "Config_Credentials (Config req) = Credentials ibm"
  shows "fst (Sign Get ibm r op) = Some e \<and>
         Error (SignRequest Get req) = Some e \<and>
         HTTPRequest (SignRequest Get req) = HTTPRequest req"
proof -
  have "Get (Credentials (NewSigner (Config_Credentials (Config req)))) = ((v, Some e), c')"
    using assms by (simp add: NewSigner_def)
  then have "Sign Get (NewSigner (Config_Credentials (Config req))) (HTTPRequest req)
               (Operation req) = (Some e, HTTPRequest req, c')"
    by (rule Sign_error)
  then have "Error (SignRequest Get req) = Some e \<and>
             HTTPRequest (SignRequest Get req) = HTTPRequest req"
    by (simp add: SignRequest_def Let_def)
  moreover have "fst (Sign Get ibm r op) = Some e"
    using Sign_error [of Get ibm v e c' r op] assms(1) by simp
  ultimately show ?thesis
    by simp
qed

theorem Sign_propagates_error_witness:
  "failingCredentials (ProviderError ''no credentials'') (Credentials (NewSigner ())) =
     ((\<lparr>ServiceInstanceID = '''', SessionToken = '''', ProviderName = ''''\<rparr>,
       Some (ProviderError ''no credentials'')), ()) \<and>
   Config_Credentials (Config \<lparr>Config = \<lparr>Config_Credentials = ()\<rparr>,
       HTTPRequest = \<lparr>Header = Map.empty\<rparr>, Operation = \<lparr>Name = ''ListBuckets''\<rparr>,
       Error = None\<rparr>) = Credentials (NewSigner ()) \<and>
   fst (Sign (failingCredentials (ProviderError ''no credentials'')) (NewSigner ())
          \<lparr>Header = Map.empty\<rparr> \<lparr>Name = ''ListBuckets''\<rparr>) =
     Some (ProviderError ''no credentials'') \<and>
   Error (SignRequest (failingCredentials (ProviderError ''no credentials''))
            \<lparr>Config = \<lparr>Config_Credentials = ()\<rparr>,
             HTTPRequest = \<lparr>Header = Map.empty\<rparr>, Operation = \<lparr>Name = ''ListBuckets''\<rparr>,
             Error = None\<rparr>) = Some (ProviderError ''no credentials'')"
proof -
  let ?e = "ProviderError ''no credentials''"
  let ?req = "\<lparr>Config = \<lparr>Config_Credentials = ()\<rparr>,
               HTTPRequest = \<lparr>Header = Map.empty\<rparr>, Operation = \<lparr>Name = ''ListBuckets''\<rparr>,
               Error = None\<rparr>"
  have h1: "failingCredentials ?e (Credentials (NewSigner ())) =
              ((\<lparr>ServiceInstanceID = '''', SessionToken = '''', ProviderName = ''''\<rparr>, Some ?e), ())"
    by (rule failingCredentials_Get)
  have h2: "Config_Credentials (Config ?req) = Credentials (NewSigner ())"
    by (simp add: NewSigner_def)
  show ?thesis
    using h1 h2
      Sign_propagates_error [of "failingCredentials ?e" "NewSigner ()" _ ?e "()" ?req
        "\<lparr>Header = Map.empty\<rparr>" "\<lparr>Name = ''ListBuckets''\<rparr>", OF h1 h2]
    by simp
qed

text \<open>
  C8. Whenever the retrieval of the credentials fails, the request \<^verbatim>\<open>Sign\<close> leaves is
  the request it was given: no header is added to it.
\<close>

theorem Sign_error_leaves_request:
  assumes "Get (Credentials ibm) = ((v, Some e), c')"
  shows "fst (snd (Sign Get ibm r op)) = r"
  using Sign_error [of Get ibm v e c' r op] assms by simp

theorem Sign_error_leaves_request_witness:
  "failingCredentials (ProviderError ''no credentials'') (Credentials (NewSigner ())) =
     ((\<lparr>ServiceInstanceID = '''', SessionToken = '''', ProviderName = ''''\<rparr>,
       Some (ProviderError ''no credentials'')), ()) \<and>
   fst (snd (Sign (failingCredentials (ProviderError ''no credentials'')) (NewSigner ())
          \<lparr>Header = [''Accept'' \<mapsto> [''text/xml'']]\<rparr> \<lparr>Name = ''CreateBucket''\<rparr>)) =
     \<lparr>Header = [''Accept'' \<mapsto> [''text/xml'']]\<rparr>"
proof -
  let ?e = "ProviderError ''no credentials''"
  have h: "failingCredentials ?e (Credentials (NewSigner ())) =
             ((\<lparr>ServiceInstanceID = '''', SessionToken = '''', ProviderName = ''''\<rparr>, Some ?e), ())"
    by (rule failingCredentials_Get)
  show ?thesis
    using h
      Sign_error_leaves_request [of "failingCredentials ?e" "NewSigner ()" _ ?e "()"
        "\<lparr>Header = [''Accept'' \<mapsto> [''text/xml'']]\<rparr>" "\<lparr>Name = ''CreateBucket''\<rparr>", OF h]
    by simp
qed

section \<open>Properties of the token provider\<close>

text \<open>
  One call of \<^verbatim>\<open>getCredentials\<close>: the POST is appended to the requests issued, and
  the endpoint's answer to it decides the result.
\<close>

lemma getCredentials_eq:
  "getCredentials Decode p net =
     (case respond net (posted net @ [(IAMEndpointURL p, apikeyForm (apiKey p))]) of
        Inl err \<Rightarrow> Inl err
      | Inr resp \<Rightarrow>
          if StatusCode resp \<noteq> 200
          then Inl (Errorf ''server returned status %d instead of 200'' (StatusCode resp))
          else Decode (Body resp),
      net\<lparr>posted := posted net @ [(IAMEndpointURL p, apikeyForm (apiKey p))]\<rparr>)"
  by (simp add: getCredentials_def http_PostForm_def Let_def split: sum.splits)

lemma getCredentials_posted:
  assumes "getCredentials Decode p net = (res, net')"
  shows "posted net' = posted net @ [(IAMEndpointURL p, apikeyForm (apiKey p))]"
  using assms by (auto simp add: getCredentials_eq)

lemma getCredentials_Inr:
  assumes "getCredentials Decode p net = (Inr out, net')"
  shows "\<exists>resp. respond net (posted net') = Inr resp \<and> StatusCode resp = 200 \<and>
           Decode (Body resp) = Inr out"
  using assms by (auto simp add: getCredentials_eq split: sum.splits if_splits)

lemma getCredentials_Inl:
  assumes "getCredentials Decode p net = (Inl e, net')"
  shows "respond net (posted net') = Inl e \<or>
         (\<exists>resp. respond net (posted net') = Inr resp \<and>
            (if StatusCode resp \<noteq> 200
             then e = Errorf ''server returned status %d instead of 200'' (StatusCode resp)
             else Decode (Body resp) = Inl e))"
  using assms by (auto simp add: getCredentials_eq split: sum.splits if_splits)

lemma Retrieve_Inl:
  assumes "getCredentials Decode p net = (Inl e, net')"
  shows "Retrieve Decode p net =
     (\<lparr>ServiceInstanceID = '''', SessionToken = '''', ProviderName = ''IBMIAMProvider''\<rparr>,
      Some (awserr_New ''CredentialsEndpointError'' ''failed to load credentials'' e), p, net')"
  using assms by (simp add: Retrieve_def ibmcreds_ProviderName_def)

lemma Retrieve_Inr:
  assumes "getCredentials Decode p net = (Inr out, net')"
  shows "Retrieve Decode p net =
     (\<lparr>ServiceInstanceID = serviceInstanceID p, SessionToken = AccessToken out,
       ProviderName = ''IBMIAMProvider''\<rparr>,
      None,
      p\<lparr>Expiry := SetExpiration (Expiry p) (time_Unix (Expiration out) 0) (ExpiryWindow p)\<rparr>,
      net')"
  using assms by (simp add: Retrieve_def ibmcreds_ProviderName_def)

lemma Retrieve_cases:
  assumes "Retrieve Decode p net = (v, err, p', net')"
  obtains (failure) e where "getCredentials Decode p net = (Inl e, net')"
      and "v = \<lparr>ServiceInstanceID = '''', SessionToken = '''', ProviderName = ''IBMIAMProvider''\<rparr>"
      and "err = Some (awserr_New ''CredentialsEndpointError'' ''failed to load credentials'' e)"
      and "p' = p"
  | (success) out where "getCredentials Decode p net = (Inr out, net')"
      and "v = \<lparr>ServiceInstanceID = serviceInstanceID p, SessionToken = AccessToken out,
                ProviderName = ''IBMIAMProvider''\<rparr>"
      and "err = None"
      and "p' = p\<lparr>Expiry := SetExpiration (Expiry p) (time_Unix (Expiration out) 0)
                               (ExpiryWindow p)\<rparr>"
proof (cases "getCredentials Decode p net")
  case (Pair res net'')
  show ?thesis
  proof (cases res)
    case (Inl e)
    with Pair have g: "getCredentials Decode p net = (Inl e, net'')"
      by simp
    have eq: "(v, err, p', net') =
        (\<lparr>ServiceInstanceID = '''', SessionToken = '''', ProviderName = ''IBMIAMProvider''\<rparr>,
         Some (awserr_New ''CredentialsEndpointError'' ''failed to load credentials'' e), p, net'')"
      using Retrieve_Inl [OF g] assms by simp
    from eq g have "getCredentials Decode p net = (Inl e, net')"
      by simp
    moreover from eq have
      "v = \<lparr>ServiceInstanceID = '''', SessionToken = '''', ProviderName = ''IBMIAMProvider''\<rparr>"
      "err = Some (awserr_New ''CredentialsEndpointError'' ''failed to load credentials'' e)"
      "p' = p"
      by simp_all
    ultimately show ?thesis
      by (rule failure)
  next
    case (Inr out)
    with Pair have g: "getCredentials Decode p net = (Inr out, net'')"
      by simp
    have eq: "(v, err, p', net') =
        (\<lparr>ServiceInstanceID = serviceInstanceID p, SessionToken = AccessToken out,
           ProviderName = ''IBMIAMProvider''\<rparr>,
         None,
         p\<lparr>Expiry := SetExpiration (Expiry p) (time_Unix (Expiration out) 0) (ExpiryWindow p)\<rparr>,
         net'')"
      using Retrieve_Inr [OF g] assms by simp
    from eq g have "getCredentials Decode p net = (Inr out, net')"
      by simp
    moreover from eq have
      "v = \<lparr>ServiceInstanceID = serviceInstanceID p, SessionToken = AccessToken out,
            ProviderName = ''IBMIAMProvider''\<rparr>"
      "err = None"
      "p' = p\<lparr>Expiry := SetExpiration (Expiry p) (time_Unix (Expiration out) 0)
                           (ExpiryWindow p)\<rparr>"
      by simp_all
    ultimately show ?thesis
      by (rule success)
  qed
qed

text \<open>
  The seconds of \<^verbatim>\<open>time.Unix\<close> wrap around: the largest \<^verbatim>\<open>int64\<close> gives a time
  before the Unix epoch.
\<close>

lemma time_Unix_small: "time_Unix 100 0 = 100000000000"
  by (simp add: time_Unix_def)

lemma time_Unix_wraps: "time_Unix 9223372036854775807 0 = - 9223372036854775809000000000"
  by (simp add: time_Unix_def)

text \<open>
  In the theorems below, \<open>Retrieve Decode p net = (v, err, p', net')\<close> is one call of
  \<^verbatim>\<open>Retrieve\<close> on the provider \<open>p\<close>, and \<open>respond net (posted net')\<close> is the outcome
  of the POST that call issued.
\<close>

text \<open>
  C1, as amended. After a call of \<^verbatim>\<open>Retrieve\<close> that succeeds and stores the
  expiration \<open>E\<close>, the time \<^verbatim>\<open>time.Unix\<close> makes of the expiration of the response, by
  a provider with expiry window \<open>W\<close>, \<^verbatim>\<open>IsExpired\<close> is false at every time strictly
  before \<open>E - W\<close> and true at every time from \<open>E - W\<close> on. So it is false immediately
  after the call when the time then is strictly before \<open>E - W\<close>.
\<close>

theorem IsExpired_after_Retrieve:
  assumes "Retrieve Decode p net = (v, None, p', net')"
    and "respond net (posted net') = Inr resp"
    and "Decode (Body resp) = Inr out"
  shows "IsExpired p' now \<longleftrightarrow>
           time_Unix (Expiration out) 0 - sint (ExpiryWindow p) \<le> now"
  using assms(1)
proof (cases rule: Retrieve_cases)
  case (failure e)
  then show ?thesis by simp
next
  case (success out')
  have "out' = out"
    using getCredentials_Inr [OF success(1)] assms(2,3) by auto
  with success(4) show ?thesis
    by (simp add: IsExpired_def Expiry_IsExpired_def SetExpiration_def)
qed

theorem IsExpired_after_Retrieve_witness:
  "Retrieve mock_Decode ((NewProviderClient ''key'' ''sid'' '''')\<lparr>ExpiryWindow := 10000000000\<rparr>)
     (mock_endpoint 200 token_response_body) =
     (\<lparr>ServiceInstanceID = ''sid'', SessionToken = ''tok'', ProviderName = ''IBMIAMProvider''\<rparr>,
      None,
      (NewProviderClient ''key'' ''sid'' '''')
        \<lparr>Expiry := \<lparr>expiration = 90000000000\<rparr>, ExpiryWindow := 10000000000\<rparr>,
      (mock_endpoint 200 token_response_body)
        \<lparr>posted := [(''https://iam.bluemix.net/oidc/token'', apikeyForm ''key'')]\<rparr>) \<and>
   time_Unix 100 0 - sint (10000000000 :: 64 word) = 90000000000 \<and>
   \<not> IsExpired ((NewProviderClient ''key'' ''sid'' '''')
        \<lparr>Expiry := \<lparr>expiration = 90000000000\<rparr>, ExpiryWindow := 10000000000\<rparr>) 89999999999 \<and>
   IsExpired ((NewProviderClient ''key'' ''sid'' '''')
        \<lparr>Expiry := \<lparr>expiration = 90000000000\<rparr>, ExpiryWindow := 10000000000\<rparr>) 90000000000"
proof -
  let ?p = "(NewProviderClient ''key'' ''sid'' '''')\<lparr>ExpiryWindow := 10000000000\<rparr>"
  let ?p' = "(NewProviderClient ''key'' ''sid'' '''')
               \<lparr>Expiry := \<lparr>expiration = 90000000000\<rparr>, ExpiryWindow := 10000000000\<rparr>"
  let ?net = "mock_endpoint 200 token_response_body"
  let ?net' = "?net\<lparr>posted := [(''https://iam.bluemix.net/oidc/token'', apikeyForm ''key'')]\<rparr>"
  let ?v = "\<lparr>ServiceInstanceID = ''sid'', SessionToken = ''tok'',
             ProviderName = ''IBMIAMProvider''\<rparr>"
  let ?resp = "\<lparr>StatusCode = 200, Body = token_response_body\<rparr>"
  let ?out = "\<lparr>Expiration = 100, AccessToken = ''tok''\<rparr>"
  have h1: "Retrieve mock_Decode ?p ?net = (?v, None, ?p', ?net')"
    by (simp add: Retrieve_def getCredentials_eq mock_endpoint_def mock_Decode_def token_response_body_def
        NewProviderClient_def IAMEndpointURL_def defaultIAMEndPoint_def
        ibmcreds_ProviderName_def SetExpiration_def time_Unix_def)
  have h2: "respond ?net (posted ?net') = Inr ?resp"
    by (simp add: mock_endpoint_def)
  have h3: "mock_Decode (Body ?resp) = Inr ?out"
    by (simp add: mock_Decode_def token_response_body_def)
  show ?thesis
    using h1 IsExpired_after_Retrieve [OF h1 h2 h3, of 89999999999]
      IsExpired_after_Retrieve [OF h1 h2 h3, of 90000000000]
    by (simp add: NewProviderClient_def time_Unix_def)
qed

text \<open>
  C1 as stated fails in its last part: \<^verbatim>\<open>Retrieve\<close> does not compare the expiration
  of the response with the current time. With a window of 10 s, a call at 95 s that
  succeeds on a response with expiration 100 s stores \<open>E - W\<close> = 90 s, and
  \<^verbatim>\<open>IsExpired\<close> is true at 95 s, immediately after the call.
\<close>

theorem IsExpired_after_Retrieve_counterexample:
  "fst (snd (Retrieve mock_Decode
       ((NewProviderClient ''key'' ''sid'' '''')\<lparr>ExpiryWindow := 10000000000\<rparr>)
       (mock_endpoint 200 token_response_body))) = None \<and>
   time_Unix 100 0 - sint (10000000000 :: 64 word) = 90000000000 \<and>
   IsExpired (fst (snd (snd (Retrieve mock_Decode
       ((NewProviderClient ''key'' ''sid'' '''')\<lparr>ExpiryWindow := 10000000000\<rparr>)
       (mock_endpoint 200 token_response_body))))) 95000000000"
  by (simp add: Retrieve_def getCredentials_eq mock_endpoint_def mock_Decode_def token_response_body_def
      NewProviderClient_def IAMEndpointURL_def defaultIAMEndPoint_def
      SetExpiration_def time_Unix_def IsExpired_def Expiry_IsExpired_def)

text \<open>
  C2, as amended. When the endpoint answers 200 with a body the decoder rejects with an
  error \<open>e\<close>, \<^verbatim>\<open>Retrieve\<close> fails, and its error is the one built by
  \<^verbatim>\<open>awserr.New\<close> with code \<^verbatim>\<open>CredentialsEndpointError\<close>, message
  \<^verbatim>\<open>failed to load credentials\<close> and original error \<open>e\<close>.
\<close>

theorem Retrieve_decode_error_wrapped:
  assumes "Retrieve Decode p net = (v, err, p', net')"
    and "respond net (posted net') = Inr resp"
    and "StatusCode resp = 200"
    and "Decode (Body resp) = Inl e"
  shows "err = Some (awserr_New ''CredentialsEndpointError'' ''failed to load credentials'' e)"
  using assms(1)
proof (cases rule: Retrieve_cases)
  case (failure e')
  have "e' = e"
    using getCredentials_Inl [OF failure(1)] assms(2,3,4) by auto
  with failure(3) show ?thesis
    by simp
next
  case (success out)
  then show ?thesis
    using getCredentials_Inr [OF success(1)] assms(2,4) by auto
qed

theorem Retrieve_decode_error_wrapped_witness:
  "Retrieve mock_Decode (NewProviderClient ''key'' ''sid'' '''') (mock_endpoint 200 ''not json'') =
     (\<lparr>ServiceInstanceID = '''', SessionToken = '''', ProviderName = ''IBMIAMProvider''\<rparr>,
      Some (awserr_New ''CredentialsEndpointError'' ''failed to load credentials''
              (DecodeError ''invalid character'')),
      NewProviderClient ''key'' ''sid'' '''',
      (mock_endpoint 200 ''not json'')
        \<lparr>posted := [(''https://iam.bluemix.net/oidc/token'', apikeyForm ''key'')]\<rparr>) \<and>
   respond (mock_endpoint 200 ''not json'')
     [(''https://iam.bluemix.net/oidc/token'', apikeyForm ''key'')] =
     Inr \<lparr>StatusCode = 200, Body = ''not json''\<rparr> \<and>
   mock_Decode ''not json'' = Inl (DecodeError ''invalid character'')"
proof -
  let ?p = "NewProviderClient ''key'' ''sid'' ''''"
  let ?net = "mock_endpoint 200 ''not json''"
  let ?net' = "?net\<lparr>posted := [(''https://iam.bluemix.net/oidc/token'', apikeyForm ''key'')]\<rparr>"
  let ?v = "\<lparr>ServiceInstanceID = '''', SessionToken = '''', ProviderName = ''IBMIAMProvider''\<rparr>"
  let ?err = "Some (awserr_New ''CredentialsEndpointError'' ''failed to load credentials''
                     (DecodeError ''invalid character''))"
  let ?resp = "\<lparr>StatusCode = 200, Body = ''not json''\<rparr>"
  have h1: "Retrieve mock_Decode ?p ?net = (?v, ?err, ?p, ?net')"
    by (simp add: Retrieve_def getCredentials_eq mock_endpoint_def mock_Decode_def token_response_body_def
        NewProviderClient_def IAMEndpointURL_def defaultIAMEndPoint_def
        ibmcreds_ProviderName_def)
  have h2: "respond ?net (posted ?net') = Inr ?resp"
    by (simp add: mock_endpoint_def)
  have h3: "StatusCode ?resp = 200"
    by simp
  have h4: "mock_Decode (Body ?resp) = Inl (DecodeError ''invalid character'')"
    by (simp add: mock_Decode_def token_response_body_def)
  show ?thesis
    using h1 h2 h4 Retrieve_decode_error_wrapped [OF h1 h2 h3 h4]
    by simp
qed

text \<open>
  C2 as stated fails: against an endpoint that answers 200 with the body \<^verbatim>\<open>not json\<close>,
  which the decoder rejects, the error of \<^verbatim>\<open>Retrieve\<close> is not the decoder's error
  but an error with code \<^verbatim>\<open>CredentialsEndpointError\<close> that wraps it.
\<close>

theorem Retrieve_decode_error_counterexample:
  "mock_Decode ''not json'' = Inl (DecodeError ''invalid character'') \<and>
   fst (snd (Retrieve mock_Decode (NewProviderClient ''key'' ''sid'' '''')
               (mock_endpoint 200 ''not json''))) \<noteq>
     Some (DecodeError ''invalid character'') \<and>
   fst (snd (Retrieve mock_Decode (NewProviderClient ''key'' ''sid'' '''')
               (mock_endpoint 200 ''not json''))) =
     Some (awserr_New ''CredentialsEndpointError'' ''failed to load credentials''
             (DecodeError ''invalid character''))"
  by (simp add: Retrieve_def getCredentials_eq mock_endpoint_def mock_Decode_def token_response_body_def)

text \<open>
  C5. Every call of \<^verbatim>\<open>Retrieve\<close> issues exactly one POST: to the configured endpoint
  followed by \<^verbatim>\<open>/oidc/token\<close> when the endpoint is not empty, to the default URL
  when it is, with a form of the three keys \<^verbatim>\<open>grant_type\<close>, \<^verbatim>\<open>response_type\<close> and
  \<^verbatim>\<open>apikey\<close>, the last holding the API key.
\<close>

theorem Retrieve_posts_form:
  assumes "Retrieve Decode p net = (v, err, p', net')"
  shows "posted net' =
     posted net @
     [(if IAMEndpoint p \<noteq> '''' then IAMEndpoint p @ ''/oidc/token''
       else ''https://iam.bluemix.net/oidc/token'',
       [''grant_type'' \<mapsto> [''urn:ibm:params:oauth:grant-type:apikey''],
        ''response_type'' \<mapsto> [''cloud_iam''],
        ''apikey'' \<mapsto> [apiKey p]])]"
  using assms
proof (cases rule: Retrieve_cases)
  case (failure e)
  show ?thesis
    using getCredentials_posted [OF failure(1)]
    by (simp add: IAMEndpointURL_def defaultIAMEndPoint_def)
next
  case (success out)
  show ?thesis
    using getCredentials_posted [OF success(1)]
    by (simp add: IAMEndpointURL_def defaultIAMEndPoint_def)
qed

theorem Retrieve_posts_form_witness:
  "Retrieve mock_Decode (NewProviderClient ''key'' ''sid'' ''https://iam.example.com'')
     (mock_endpoint 500 ''oops'') =
     (\<lparr>ServiceInstanceID = '''', SessionToken = '''', ProviderName = ''IBMIAMProvider''\<rparr>,
      Some (awserr_New ''CredentialsEndpointError'' ''failed to load credentials''
              (Errorf ''server returned status %d instead of 200'' 500)),
      NewProviderClient ''key'' ''sid'' ''https://iam.example.com'',
      (mock_endpoint 500 ''oops'')
        \<lparr>posted := [(''https://iam.example.com/oidc/token'', apikeyForm ''key'')]\<rparr>) \<and>
   posted ((mock_endpoint 500 ''oops'')
        \<lparr>posted := [(''https://iam.example.com/oidc/token'', apikeyForm ''key'')]\<rparr>) =
     [(''https://iam.example.com/oidc/token'',
       [''grant_type'' \<mapsto> [''urn:ibm:params:oauth:grant-type:apikey''],
        ''response_type'' \<mapsto> [''cloud_iam''],
        ''apikey'' \<mapsto> [''key'']])]"
proof -
  let ?p = "NewProviderClient ''key'' ''sid'' ''https://iam.example.com''"
  let ?net = "mock_endpoint 500 ''oops''"
  let ?net' = "?net\<lparr>posted := [(''https://iam.example.com/oidc/token'', apikeyForm ''key'')]\<rparr>"
  let ?v = "\<lparr>ServiceInstanceID = '''', SessionToken = '''', ProviderName = ''IBMIAMProvider''\<rparr>"
  let ?err = "Some (awserr_New ''CredentialsEndpointError'' ''failed to load credentials''
                     (Errorf ''server returned status %d instead of 200'' 500))"
  have h: "Retrieve mock_Decode ?p ?net = (?v, ?err, ?p, ?net')"
    by (simp add: Retrieve_def getCredentials_eq mock_endpoint_def
        NewProviderClient_def IAMEndpointURL_def ibmcreds_ProviderName_def)
  show ?thesis
    using h Retrieve_posts_form [OF h]
    by (simp add: NewProviderClient_def mock_endpoint_def)
qed

text \<open>
  C6. When the POST fails in the transport, or the endpoint answers with a status other
  than 200, \<^verbatim>\<open>Retrieve\<close> returns an error with code \<^verbatim>\<open>CredentialsEndpointError\<close>
  and a credential value whose session token is empty.
\<close>

theorem Retrieve_endpoint_error:
  assumes "Retrieve Decode p net = (v, err, p', net')"
    and "(\<exists>e. respond net (posted net') = Inl e) \<or>
         (\<exists>resp. respond net (posted net') = Inr resp \<and> StatusCode resp \<noteq> 200)"
  shows "(\<exists>e. err = Some e \<and> Code e = Some ''CredentialsEndpointError'') \<and>
         SessionToken v = ''''"
  using assms(1)
proof (cases rule: Retrieve_cases)
  case (failure e)
  then show ?thesis
    by simp
next
  case (success out)
  then show ?thesis
    using getCredentials_Inr [OF success(1)] assms(2) by auto
qed

theorem Retrieve_endpoint_error_witness:
  "Retrieve mock_Decode (NewProviderClient ''key'' ''sid'' '''') (mock_endpoint 500 ''oops'') =
     (\<lparr>ServiceInstanceID = '''', SessionToken = '''', ProviderName = ''IBMIAMProvider''\<rparr>,
      Some (awserr_New ''CredentialsEndpointError'' ''failed to load credentials''
              (Errorf ''server returned status %d instead of 200'' 500)),
      NewProviderClient ''key'' ''sid'' '''',
      (mock_endpoint 500 ''oops'')
        \<lparr>posted := [(''https://iam.bluemix.net/oidc/token'', apikeyForm ''key'')]\<rparr>) \<and>
   respond (mock_endpoint 500 ''oops'')
     [(''https://iam.bluemix.net/oidc/token'', apikeyForm ''key'')] =
     Inr \<lparr>StatusCode = 500, Body = ''oops''\<rparr> \<and>
   Code (awserr_New ''CredentialsEndpointError'' ''failed to load credentials''
           (Errorf ''server returned status %d instead of 200'' 500)) =
     Some ''CredentialsEndpointError''"
proof -
  let ?p = "NewProviderClient ''key'' ''sid'' ''''"
  let ?net = "mock_endpoint 500 ''oops''"
  let ?net' = "?net\<lparr>posted := [(''https://iam.bluemix.net/oidc/token'', apikeyForm ''key'')]\<rparr>"
  let ?v = "\<lparr>ServiceInstanceID = '''', SessionToken = '''', ProviderName = ''IBMIAMProvider''\<rparr>"
  let ?err = "Some (awserr_New ''CredentialsEndpointError'' ''failed to load credentials''
                     (Errorf ''server returned status %d instead of 200'' 500))"
  have h1: "Retrieve mock_Decode ?p ?net = (?v, ?err, ?p, ?net')"
    by (simp add: Retrieve_def getCredentials_eq mock_endpoint_def
        NewProviderClient_def IAMEndpointURL_def defaultIAMEndPoint_def
        ibmcreds_ProviderName_def)
  have h2: "(\<exists>e. respond ?net (posted ?net') = Inl e) \<or>
            (\<exists>resp. respond ?net (posted ?net') = Inr resp \<and> StatusCode resp \<noteq> 200)"
    by (simp add: mock_endpoint_def)
  show ?thesis
    using h1 Retrieve_endpoint_error [OF h1 h2]
    by (simp add: mock_endpoint_def)
qed

text \<open>
  C9. A call of \<^verbatim>\<open>Retrieve\<close> that fails leaves the cached expiration of the provider
  as it was, so \<^verbatim>\<open>IsExpired\<close> answers after it as it did before, at every time.
\<close>

theorem Retrieve_failure_keeps_expiration:
  assumes "Retrieve Decode p net = (v, Some err, p', net')"
  shows "Expiry p' = Expiry p \<and> IsExpired p' now = IsExpired p now"
  using assms
proof (cases rule: Retrieve_cases)
  case (failure e)
  then show ?thesis
    by simp
next
  case (success out)
  then show ?thesis
    by simp
qed

theorem Retrieve_failure_keeps_expiration_witness:
  "Retrieve mock_Decode (NewProviderClient ''key'' ''sid'' '''') unreachable_endpoint =
     (\<lparr>ServiceInstanceID = '''', SessionToken = '''', ProviderName = ''IBMIAMProvider''\<rparr>,
      Some (awserr_New ''CredentialsEndpointError'' ''failed to load credentials''
              (TransportError ''connection refused'')),
      NewProviderClient ''key'' ''sid'' '''',
      unreachable_endpoint
        \<lparr>posted := [(''https://iam.bluemix.net/oidc/token'', apikeyForm ''key'')]\<rparr>) \<and>
   Expiry (NewProviderClient ''key'' ''sid'' '''') = \<lparr>expiration = - 62135596800000000000\<rparr> \<and>
   IsExpired (NewProviderClient ''key'' ''sid'' '''') 0"
proof -
  let ?p = "NewProviderClient ''key'' ''sid'' ''''"
  let ?net = "unreachable_endpoint"
  let ?net' = "?net\<lparr>posted := [(''https://iam.bluemix.net/oidc/token'', apikeyForm ''key'')]\<rparr>"
  let ?v = "\<lparr>ServiceInstanceID = '''', SessionToken = '''', ProviderName = ''IBMIAMProvider''\<rparr>"
  let ?err = "awserr_New ''CredentialsEndpointError'' ''failed to load credentials''
                (TransportError ''connection refused'')"
  have h: "Retrieve mock_Decode ?p ?net = (?v, Some ?err, ?p, ?net')"
    by (simp add: Retrieve_def getCredentials_eq unreachable_endpoint_def
        NewProviderClient_def IAMEndpointURL_def defaultIAMEndPoint_def
        ibmcreds_ProviderName_def)
  show ?thesis
    using h Retrieve_failure_keeps_expiration [OF h, of 0]
    by (simp add: NewProviderClient_def IsExpired_def Expiry_IsExpired_def)
qed

text \<open>
  C10. The credential value of every call of \<^verbatim>\<open>Retrieve\<close> has the provider name
  \<^verbatim>\<open>IBMIAMProvider\<close>; when the call succeeds, the value carries the service-instance
  id of the provider and, as its session token, the access token decoded from the
  response.
\<close>

theorem Retrieve_value:
  assumes "Retrieve Decode p net = (v, err, p', net')"
  shows "ProviderName v = ''IBMIAMProvider'' \<and>
         (err = None \<longrightarrow>
            ServiceInstanceID v = serviceInstanceID p \<and>
            (\<exists>resp out. respond net (posted net') = Inr resp \<and>
               Decode (Body resp) = Inr out \<and> SessionToken v = AccessToken out))"
  using assms
proof (cases rule: Retrieve_cases)
  case (failure e)
  then show ?thesis
    by simp
next
  case (success out)
  then show ?thesis
    using getCredentials_Inr [OF success(1)] by auto
qed

theorem Retrieve_value_witness:
  "Retrieve mock_Decode (NewProviderClient ''key'' ''sid'' '''')
     (mock_endpoint 200 token_response_body) =
     (\<lparr>ServiceInstanceID = ''sid'', SessionToken = ''tok'', ProviderName = ''IBMIAMProvider''\<rparr>,
      None,
      (NewProviderClient ''key'' ''sid'' '''')\<lparr>Expiry := \<lparr>expiration = 100000000000\<rparr>\<rparr>,
      (mock_endpoint 200 token_response_body)
        \<lparr>posted := [(''https://iam.bluemix.net/oidc/token'', apikeyForm ''key'')]\<rparr>) \<and>
   serviceInstanceID (NewProviderClient ''key'' ''sid'' '''') = ''sid'' \<and>
   mock_Decode token_response_body =
     Inr \<lparr>Expiration = 100, AccessToken = ''tok''\<rparr>"
proof -
  let ?p = "NewProviderClient ''key'' ''sid'' ''''"
  let ?p' = "(NewProviderClient ''key'' ''sid'' '''')\<lparr>Expiry := \<lparr>expiration = 100000000000\<rparr>\<rparr>"
  let ?net = "mock_endpoint 200 token_response_body"
  let ?net' = "?net\<lparr>posted := [(''https://iam.bluemix.net/oidc/token'', apikeyForm ''key'')]\<rparr>"
  let ?v = "\<lparr>ServiceInstanceID = ''sid'', SessionToken = ''tok'',
             ProviderName = ''IBMIAMProvider''\<rparr>"
  have h: "Retrieve mock_Decode ?p ?net = (?v, None, ?p', ?net')"
    by (simp add: Retrieve_def getCredentials_eq mock_endpoint_def mock_Decode_def token_response_body_def
        NewProviderClient_def IAMEndpointURL_def defaultIAMEndPoint_def
        ibmcreds_ProviderName_def SetExpiration_def time_Unix_def)
  show ?thesis
    using h Retrieve_value [OF h]
    by (simp add: NewProviderClient_def mock_Decode_def token_response_body_def)
qed

end
